theory Spec2Isabelle
  imports Main "HOL-Library.Monad_Syntax" "HOL-Library.AList"
begin

section \<open>The ServiceEntry registry of pilot/pkg/serviceregistry/external\<close>

text \<open>
  A shallow embedding of \<^verbatim>\<open>servicediscovery.go\<close>. The receiver \<^verbatim>\<open>*ServiceEntryStore\<close> is
  passed explicitly and returned; a method that takes \<^verbatim>\<open>storeMutex\<close> returns an option,
  \<open>None\<close> meaning that the calling goroutine does not return from the call by itself
  (it blocks on the mutex, or the runtime aborts on an unlock of an unlocked mutex).
  Only one goroutine is modelled: other goroutines appear through the lock state and the
  fields they may have left behind.
\<close>

subsection \<open>Types of package model read by the file\<close>

type_synonym Hostname = string

text \<open>\<^verbatim>\<open>model.Labels\<close> is a Go \<^verbatim>\<open>map[string]string\<close>; it is kept as an association list
  read through \<^const>\<open>map_of\<close>, so that a requested label set can be traversed.\<close>

type_synonym Labels = "(string \<times> string) list"

record Service =
  Hostname :: Hostname

record Port =
  Name :: string
  Port :: int

record NetworkEndpoint =
  Address :: string
  ServicePort :: Port

text \<open>The pointers \<^verbatim>\<open>instance.Service\<close> and \<^verbatim>\<open>Endpoint.ServicePort\<close> are values here: the
  conversion functions never produce a nil one.\<close>

record ServiceInstance =
  Endpoint :: NetworkEndpoint
  Service :: Service
  Labels :: Labels

text \<open>A \<^verbatim>\<open>model.Config\<close> as far as the file reads it. \<^verbatim>\<open>config.Spec.(*networking.ServiceEntry)\<close>
  cannot fail on what \<^verbatim>\<open>store.ServiceEntries()\<close> enumerates, so \<open>Spec\<close> has the type
  \<open>'e\<close> of a service entry.\<close>

record 'e Config =
  Namespace :: string
  Spec :: 'e

record ServiceAttributes =
  attrName :: string
  attrNamespace :: string

text \<open>Modelled from the spec: \<^verbatim>\<open>model.Event\<close> is declared outside the file; section 6 of the
  specification lists the event kinds Added, Updated, Deleted.\<close>

datatype Event = Added | Updated | Deleted

text \<open>An error built by \<^verbatim>\<open>fmt.Errorf\<close>, identified by its message.\<close>

datatype error = Errorf string

text \<open>Modelled from the spec: \<^verbatim>\<open>model.LabelsCollection\<close> and its method \<^verbatim>\<open>HasSubsetOf\<close> are
  declared outside the file. Section 4.3 of the specification: an instance matches a
  requested label set L if every key in L is present in the instance's labels with an
  equal value; an empty L matches every instance.\<close>

definition HasSubsetOf :: "Labels \<Rightarrow> Labels \<Rightarrow> bool" where
  "HasSubsetOf labels that = list_all (\<lambda>kv. map_of that (fst kv) = Some (snd kv)) labels"

subsection \<open>sync.RWMutex, seen from one goroutine\<close>

record RWMutex =
  readers :: nat
  writer :: bool

definition unlocked :: "RWMutex \<Rightarrow> bool" where
  "unlocked m = (readers m = 0 \<and> \<not> writer m)"

definition RLock :: "RWMutex \<Rightarrow> RWMutex option" where
  "RLock m = (if writer m then None else Some (m\<lparr>readers := Suc (readers m)\<rparr>))"

definition RUnlock :: "RWMutex \<Rightarrow> RWMutex option" where
  "RUnlock m = (if readers m = 0 then None else Some (m\<lparr>readers := readers m - 1\<rparr>))"

definition Lock :: "RWMutex \<Rightarrow> RWMutex option" where
  "Lock m = (if writer m \<or> readers m \<noteq> 0 then None else Some (m\<lparr>writer := True\<rparr>))"

definition Unlock :: "RWMutex \<Rightarrow> RWMutex option" where
  "Unlock m = (if writer m then Some (m\<lparr>writer := False\<rparr>) else None)"

subsection \<open>The store\<close>

text \<open>\<^verbatim>\<open>model.ConfigStoreCache\<close> is an interface of another package; the only thing the file
  does with it is to register one event handler for the ServiceEntry type, which is
  counted here.\<close>

record ConfigStoreCache =
  serviceEntryHandlers :: nat

text \<open>\<open>store\<close> is what \<^verbatim>\<open>d.store.ServiceEntries()\<close> currently enumerates; the handler types
  \<open>'sh\<close> and \<open>'ih\<close> stand for the registered Go closures; \<open>lastChange\<close> is a clock
  reading.\<close>

record ('sh, 'ih, 'e) ServiceEntryStore =
  serviceHandlers :: "'sh list"
  instanceHandlers :: "'ih list"
  store :: "'e Config list"
  callbacks :: "ConfigStoreCache option"
  storeMutex :: RWMutex
  ip2instance :: "string \<rightharpoonup> ServiceInstance list"
  instances :: "string \<rightharpoonup> ServiceInstance list"
  lastChange :: nat
  updateNeeded :: bool

text \<open>A goroutine started by \<^verbatim>\<open>go handler(entity, event)\<close>.\<close>

datatype ('sh, 'ih) spawned =
  ServiceCall 'sh Service Event
| InstanceCall 'ih ServiceInstance Event

subsection \<open>NewServiceDiscovery and its event handler\<close>

definition NewServiceDiscovery ::
  "ConfigStoreCache option \<Rightarrow> 'e Config list \<Rightarrow> ('sh, 'ih, 'e) ServiceEntryStore" where
  "NewServiceDiscovery cb st =
     \<lparr>serviceHandlers = [],
      instanceHandlers = [],
      store = st,
      callbacks =
        (case cb of None \<Rightarrow> None
         | Some c \<Rightarrow> Some (c\<lparr>serviceEntryHandlers := Suc (serviceEntryHandlers c)\<rparr>)),
      storeMutex = \<lparr>readers = 0, writer = False\<rparr>,
      ip2instance = Map.empty,
      instances = Map.empty,
      lastChange = 0,
      updateNeeded = True\<rparr>"

text \<open>The closure registered at lines 67-89, run on the store \<open>d\<close> it captured; \<open>now\<close> is
  \<^verbatim>\<open>time.Now()\<close>. It returns the goroutines it started, in the order of the \<^verbatim>\<open>go\<close>
  statements.\<close>

definition eventHandler ::
  "('e \<Rightarrow> Service list) \<Rightarrow> ('e \<Rightarrow> ServiceInstance list) \<Rightarrow> nat \<Rightarrow>
   ('sh, 'ih, 'e) ServiceEntryStore \<Rightarrow> 'e Config \<Rightarrow> Event \<Rightarrow>
   (('sh, 'ih, 'e) ServiceEntryStore \<times> ('sh, 'ih) spawned list) option" where
  "eventHandler convertServices convertInstances now d config event =
     do {
       let serviceEntry = Spec config;
       m \<leftarrow> Lock (storeMutex d);
       let d = d\<lparr>storeMutex := m, lastChange := now, updateNeeded := True\<rparr>;
       m \<leftarrow> Unlock (storeMutex d);
       let d = d\<lparr>storeMutex := m\<rparr>;
       let services = convertServices serviceEntry;
       let started =
             fold (\<lambda>handler started.
                     fold (\<lambda>service started. started @ [ServiceCall handler service event])
                       services started)
               (serviceHandlers d) [];
       let insts = convertInstances serviceEntry;
       let started =
             fold (\<lambda>handler started.
                     fold (\<lambda>instance started. started @ [InstanceCall handler instance event])
                       insts started)
               (instanceHandlers d) started;
       Some (d, started)
     }"

definition AppendServiceHandler ::
  "('sh, 'ih, 'e) ServiceEntryStore \<Rightarrow> 'sh \<Rightarrow> ('sh, 'ih, 'e) ServiceEntryStore \<times> error option" where
  "AppendServiceHandler d f = (d\<lparr>serviceHandlers := serviceHandlers d @ [f]\<rparr>, None)"

definition AppendInstanceHandler ::
  "('sh, 'ih, 'e) ServiceEntryStore \<Rightarrow> 'ih \<Rightarrow> ('sh, 'ih, 'e) ServiceEntryStore \<times> error option" where
  "AppendInstanceHandler d f = (d\<lparr>instanceHandlers := instanceHandlers d @ [f]\<rparr>, None)"

subsection \<open>Queries on the source enumeration\<close>

definition Services ::
  "('e \<Rightarrow> Service list) \<Rightarrow> ('sh, 'ih, 'e) ServiceEntryStore \<Rightarrow>
   ('sh, 'ih, 'e) ServiceEntryStore \<times> Service list \<times> error option" where
  "Services convertServices d =
     (let services =
            fold (\<lambda>config services. services @ convertServices (Spec config)) (store d) []
      in (d, services, None))"

definition getServices ::
  "('e \<Rightarrow> Service list) \<Rightarrow> ('sh, 'ih, 'e) ServiceEntryStore \<Rightarrow> Service list" where
  "getServices convertServices d =
     fold (\<lambda>config services. services @ convertServices (Spec config)) (store d) []"

fun GetService_loop :: "Service list \<Rightarrow> Hostname \<Rightarrow> Service option \<times> error option" where
  "GetService_loop [] hostname = (None, None)"
| "GetService_loop (service # rest) hostname =
     (if Hostname service = hostname then (Some service, None)
      else GetService_loop rest hostname)"

definition GetService ::
  "('e \<Rightarrow> Service list) \<Rightarrow> ('sh, 'ih, 'e) ServiceEntryStore \<Rightarrow> Hostname \<Rightarrow>
   ('sh, 'ih, 'e) ServiceEntryStore \<times> Service option \<times> error option" where
  "GetService convertServices d hostname =
     (d, GetService_loop (getServices convertServices d) hostname)"

text \<open>The inner loop of \<^verbatim>\<open>GetServiceAttributes\<close>: \<open>Some\<close> is the early return.\<close>

fun GetServiceAttributes_svcs ::
  "string \<Rightarrow> Service list \<Rightarrow> Hostname \<Rightarrow> ServiceAttributes option" where
  "GetServiceAttributes_svcs ns [] hostname = None"
| "GetServiceAttributes_svcs ns (s # svcs) hostname =
     (if Hostname s = hostname then Some \<lparr>attrName = hostname, attrNamespace = ns\<rparr>
      else GetServiceAttributes_svcs ns svcs hostname)"

fun GetServiceAttributes_loop ::
  "('e \<Rightarrow> Service list) \<Rightarrow> 'e Config list \<Rightarrow> Hostname \<Rightarrow>
   ServiceAttributes option \<times> error option" where
  "GetServiceAttributes_loop convertServices [] hostname =
     (None, Some (Errorf ''service not found''))"
| "GetServiceAttributes_loop convertServices (config # rest) hostname =
     (case GetServiceAttributes_svcs (Namespace config) (convertServices (Spec config)) hostname of
        Some attrs \<Rightarrow> (Some attrs, None)
      | None \<Rightarrow> GetServiceAttributes_loop convertServices rest hostname)"

definition GetServiceAttributes ::
  "('e \<Rightarrow> Service list) \<Rightarrow> ('sh, 'ih, 'e) ServiceEntryStore \<Rightarrow> Hostname \<Rightarrow>
   ('sh, 'ih, 'e) ServiceEntryStore \<times> ServiceAttributes option \<times> error option" where
  "GetServiceAttributes convertServices d hostname =
     (d, GetServiceAttributes_loop convertServices (store d) hostname)"

text \<open>\<^verbatim>\<open>portMap\<close> is a Go \<^verbatim>\<open>map[string]bool\<close> whose length is read: an association list with
  one pair for each key. A missing key reads as \<^verbatim>\<open>false\<close>.\<close>

definition portMatchEnvoyV1 :: "ServiceInstance \<Rightarrow> (string \<times> bool) list \<Rightarrow> bool" where
  "portMatchEnvoyV1 instance portMap =
     (length portMap = 0 \<or>
      (case map_of portMap (Name (ServicePort (Endpoint instance))) of
         None \<Rightarrow> False | Some b \<Rightarrow> b))"

definition portMatchSingle :: "ServiceInstance \<Rightarrow> int \<Rightarrow> bool" where
  "portMatchSingle instance port = (port = 0 \<or> port = Port (ServicePort (Endpoint instance)))"

definition Instances ::
  "('e \<Rightarrow> ServiceInstance list) \<Rightarrow> ('sh, 'ih, 'e) ServiceEntryStore \<Rightarrow> Hostname \<Rightarrow>
   string list \<Rightarrow> Labels \<Rightarrow>
   ('sh, 'ih, 'e) ServiceEntryStore \<times> ServiceInstance list \<times> error option" where
  "Instances convertInstances d hostname ports labels =
     (let portMap = fold (\<lambda>port portMap. AList.update port True portMap) ports [];
          out =
            fold (\<lambda>config out.
                    fold (\<lambda>instance out.
                            if Hostname (Service instance) = hostname \<and>
                               HasSubsetOf labels (Labels instance) \<and>
                               portMatchEnvoyV1 instance portMap
                            then out @ [instance] else out)
                      (convertInstances (Spec config)) out)
              (store d) []
      in (d, out, None))"

subsection \<open>The index and the queries it backs\<close>

text \<open>The body of the inner loop of \<^verbatim>\<open>update\<close>, lines 239-252. The second lookup reads
  \<^verbatim>\<open>d.instances\<close> (after the assignment to \<^verbatim>\<open>d.instances[key]\<close>), as the source does.
  Slices are lists: this is exact for the by-hostname map, and for the by-address entry
  of every address that is not also a hostname key. Where an address is a hostname key,
  Go's \<^verbatim>\<open>append\<close> may share a backing array between the two maps, and only the presence
  and the length of the by-address entry are those of the program.\<close>

definition update_instance ::
  "ServiceInstance \<Rightarrow> ('sh, 'ih, 'e) ServiceEntryStore \<Rightarrow> ('sh, 'ih, 'e) ServiceEntryStore" where
  "update_instance instance d =
     (let key = Hostname (Service instance);
          out = (case instances d key of Some found \<Rightarrow> found | None \<Rightarrow> []);
          out = out @ [instance];
          d = d\<lparr>instances := (instances d)(key \<mapsto> out)\<rparr>;
          byip = (case instances d (Address (Endpoint instance)) of
                    Some found \<Rightarrow> found | None \<Rightarrow> []);
          byip = byip @ [instance]
      in d\<lparr>ip2instance := (ip2instance d)(Address (Endpoint instance) \<mapsto> byip)\<rparr>)"

definition update ::
  "('e \<Rightarrow> ServiceInstance list) \<Rightarrow> ('sh, 'ih, 'e) ServiceEntryStore \<Rightarrow>
   ('sh, 'ih, 'e) ServiceEntryStore option" where
  "update convertInstances d =
     do {
       m \<leftarrow> RLock (storeMutex d);
       let d = d\<lparr>storeMutex := m\<rparr>;
       if \<not> updateNeeded d then Some d
       else do {
         m \<leftarrow> RUnlock (storeMutex d);
         let d = d\<lparr>storeMutex := m\<rparr>;
         m \<leftarrow> Lock (storeMutex d);
         let d = d\<lparr>storeMutex := m\<rparr>;
         let d = d\<lparr>instances := Map.empty\<rparr>;
         let d = d\<lparr>ip2instance := Map.empty\<rparr>;
         let d = fold (\<lambda>config d. fold update_instance (convertInstances (Spec config)) d)
                   (store d) d;
         m \<leftarrow> Unlock (storeMutex d);
         Some (d\<lparr>storeMutex := m\<rparr>)
       }
     }"

definition InstancesByPort ::
  "('e \<Rightarrow> ServiceInstance list) \<Rightarrow> ('sh, 'ih, 'e) ServiceEntryStore \<Rightarrow> Hostname \<Rightarrow>
   int \<Rightarrow> Labels \<Rightarrow>
   (('sh, 'ih, 'e) ServiceEntryStore \<times> ServiceInstance list \<times> error option) option" where
  "InstancesByPort convertInstances d hostname port labels =
     do {
       d \<leftarrow> update convertInstances d;
       m \<leftarrow> RLock (storeMutex d);
       let d = d\<lparr>storeMutex := m\<rparr>;
       let out =
             (case instances d hostname of
                Some found \<Rightarrow>
                  fold (\<lambda>instance out.
                          if Hostname (Service instance) = hostname \<and>
                             HasSubsetOf labels (Labels instance) \<and>
                             portMatchSingle instance port
                          then out @ [instance] else out)
                    found []
              | None \<Rightarrow> []);
       m \<leftarrow> RUnlock (storeMutex d);
       Some (d\<lparr>storeMutex := m\<rparr>, out, None)
     }"

definition GetProxyServiceInstances ::
  "('e \<Rightarrow> ServiceInstance list) \<Rightarrow> ('sh, 'ih, 'e) ServiceEntryStore \<Rightarrow> string \<Rightarrow>
   (('sh, 'ih, 'e) ServiceEntryStore \<times> ServiceInstance list \<times> error option) option" where
  "GetProxyServiceInstances convertInstances d IPAddress =
     do {
       d \<leftarrow> update convertInstances d;
       m \<leftarrow> RLock (storeMutex d);
       let d = d\<lparr>storeMutex := m\<rparr>;
       let result =
             (case ip2instance d IPAddress of
                Some found \<Rightarrow> (found, None)
              | None \<Rightarrow> ([], None));
       m \<leftarrow> RUnlock (storeMutex d);
       Some (d\<lparr>storeMutex := m\<rparr>, result)
     }"

subsection \<open>The re-derivation the index is compared with\<close>

text \<open>Every instance, respectively service, the conversion gives for the records the
  source store currently enumerates, in enumeration order.\<close>

definition allInstances ::
  "('e \<Rightarrow> ServiceInstance list) \<Rightarrow> ('sh, 'ih, 'e) ServiceEntryStore \<Rightarrow> ServiceInstance list" where
  "allInstances convertInstances d =
     concat (map (\<lambda>config. convertInstances (Spec config)) (store d))"

definition allServices ::
  "('e \<Rightarrow> Service list) \<Rightarrow> ('sh, 'ih, 'e) ServiceEntryStore \<Rightarrow> Service list" where
  "allServices convertServices d =
     concat (map (\<lambda>config. convertServices (Spec config)) (store d))"

text \<open>Reading an index map the way the queries do: a missing key is the empty list.\<close>

definition lookup :: "(string \<rightharpoonup> ServiceInstance list) \<Rightarrow> string \<Rightarrow> ServiceInstance list" where
  "lookup m k = (case m k of Some found \<Rightarrow> found | None \<Rightarrow> [])"

text \<open>The store after the loop of lines 233-254 has run on it.\<close>

definition reindexed ::
  "('e \<Rightarrow> ServiceInstance list) \<Rightarrow> ('sh, 'ih, 'e) ServiceEntryStore \<Rightarrow>
   ('sh, 'ih, 'e) ServiceEntryStore" where
  "reindexed convertInstances d =
     fold update_instance (allInstances convertInstances d)
       (d\<lparr>instances := Map.empty, ip2instance := Map.empty\<rparr>)"

text \<open>The stores one goroutine can produce, each call running to its end: construction,
  a change of what the source store enumerates, a change notification, the registration
  of a handler, and the two queries that go through \<^const>\<open>update\<close>. The other queries
  return the store they were given.\<close>

inductive reachable ::
  "('e \<Rightarrow> Service list) \<Rightarrow> ('e \<Rightarrow> ServiceInstance list) \<Rightarrow>
   ('sh, 'ih, 'e) ServiceEntryStore \<Rightarrow> bool"
  for cs :: "'e \<Rightarrow> Service list" and ci :: "'e \<Rightarrow> ServiceInstance list" where
  constructed: "reachable cs ci (NewServiceDiscovery cb st)"
| source_changed: "reachable cs ci d \<Longrightarrow> reachable cs ci (d\<lparr>store := st\<rparr>)"
| notified:
    "reachable cs ci d \<Longrightarrow> eventHandler cs ci now d config event = Some (d', started) \<Longrightarrow>
     reachable cs ci d'"
| service_handler: "reachable cs ci d \<Longrightarrow> reachable cs ci (fst (AppendServiceHandler d f))"
| instance_handler: "reachable cs ci d \<Longrightarrow> reachable cs ci (fst (AppendInstanceHandler d g))"
| by_port:
    "reachable cs ci d \<Longrightarrow> InstancesByPort ci d h port labels = Some (d', r) \<Longrightarrow>
     reachable cs ci d'"
| by_address:
    "reachable cs ci d \<Longrightarrow> GetProxyServiceInstances ci d a = Some (d', r) \<Longrightarrow>
     reachable cs ci d'"

subsection \<open>A small registry\<close>

text \<open>One record of namespace \<open>default\<close> that converts to the service \<open>a.example\<close> and to
  two instances of it at the same address; a service entry is the pair of what the two
  conversions give for it. Two service handlers and one instance handler are registered.\<close>

definition ex_http :: ServiceInstance where
  "ex_http =
     \<lparr>Endpoint = \<lparr>Address = ''10.0.0.1'', ServicePort = \<lparr>Name = ''http'', Port = 80\<rparr>\<rparr>,
      Service = \<lparr>Hostname = ''a.example''\<rparr>, Labels = [(''env'', ''prod'')]\<rparr>"

definition ex_grpc :: ServiceInstance where
  "ex_grpc =
     \<lparr>Endpoint = \<lparr>Address = ''10.0.0.1'', ServicePort = \<lparr>Name = ''grpc'', Port = 8080\<rparr>\<rparr>,
      Service = \<lparr>Hostname = ''a.example''\<rparr>, Labels = [(''env'', ''dev'')]\<rparr>"

definition ex_entry :: "(Service list \<times> ServiceInstance list) Config" where
  "ex_entry =
     \<lparr>Namespace = ''default'', Spec = ([\<lparr>Hostname = ''a.example''\<rparr>], [ex_http, ex_grpc])\<rparr>"

definition ex_store :: "(nat, nat, Service list \<times> ServiceInstance list) ServiceEntryStore" where
  "ex_store =
     (NewServiceDiscovery None [ex_entry])\<lparr>serviceHandlers := [1, 2], instanceHandlers := [7]\<rparr>"

section \<open>Properties\<close>

subsection \<open>Loops as list functions\<close>

lemma fold_append_concat:
  "fold (\<lambda>x acc. acc @ f x) xs acc0 = acc0 @ concat (map f xs)"
  by (induction xs arbitrary: acc0) simp_all

lemma fold_snoc_filter:
  "fold (\<lambda>x out. if P x then out @ [x] else out) xs acc = acc @ filter P xs"
  by (induction xs arbitrary: acc) simp_all

lemma fold_snoc_map:
  "fold (\<lambda>x acc. acc @ [f x]) xs acc0 = acc0 @ map f xs"
  by (induction xs arbitrary: acc0) simp_all

lemma fold_fold_product:
  "fold (\<lambda>h acc. fold (\<lambda>x acc. acc @ [f h x]) xs acc) hs acc0 =
     acc0 @ map (\<lambda>(h, x). f h x) (List.product hs xs)"
  by (induction hs arbitrary: acc0) (simp_all add: fold_snoc_map comp_def)

lemma fold_configs_flat:
  "fold (\<lambda>config d. fold f (g config) d) cs d0 = fold f (concat (map g cs)) d0"
  by (induction cs arbitrary: d0) simp_all

lemma fold_scan:
  "fold (\<lambda>config out. fold (\<lambda>x out. if P x then out @ [x] else out) (g config) out) cs acc =
     acc @ filter P (concat (map g cs))"
  by (induction cs arbitrary: acc) (simp_all add: fold_snoc_filter)

subsection \<open>The mutex\<close>

lemma mutex_roundtrip:
  assumes "unlocked m"
  shows "RLock m = Some (m\<lparr>readers := Suc 0\<rparr>)"
    and "RUnlock (m\<lparr>readers := Suc 0\<rparr>) = Some m"
    and "Lock m = Some (m\<lparr>writer := True\<rparr>)"
    and "Unlock (m\<lparr>writer := True\<rparr>) = Some m"
  using assms by (simp_all add: unlocked_def RLock_def RUnlock_def Lock_def Unlock_def)

lemma set_own_storeMutex: "storeMutex D = m \<Longrightarrow> D\<lparr>storeMutex := m\<rparr> = D"
  by auto

subsection \<open>The rebuild loop\<close>

lemma update_instance_frame:
  "storeMutex (update_instance i d) = storeMutex d"
  "updateNeeded (update_instance i d) = updateNeeded d"
  "store (update_instance i d) = store d"
  "serviceHandlers (update_instance i d) = serviceHandlers d"
  "instanceHandlers (update_instance i d) = instanceHandlers d"
  "callbacks (update_instance i d) = callbacks d"
  "lastChange (update_instance i d) = lastChange d"
  by (simp_all add: update_instance_def Let_def)

lemma fold_update_instance_frame:
  "storeMutex (fold update_instance xs d) = storeMutex d"
  "updateNeeded (fold update_instance xs d) = updateNeeded d"
  "store (fold update_instance xs d) = store d"
  "serviceHandlers (fold update_instance xs d) = serviceHandlers d"
  "instanceHandlers (fold update_instance xs d) = instanceHandlers d"
  "callbacks (fold update_instance xs d) = callbacks d"
  "lastChange (fold update_instance xs d) = lastChange d"
  by (induction xs arbitrary: d) (simp_all add: update_instance_frame)

lemma update_instance_instances:
  "instances (update_instance i d) =
     (instances d)(Hostname (Service i) \<mapsto> lookup (instances d) (Hostname (Service i)) @ [i])"
  by (simp add: update_instance_def Let_def lookup_def)

lemma update_instance_ip2instance:
  "ip2instance (update_instance i d) =
     (ip2instance d)(Address (Endpoint i) \<mapsto>
        lookup (instances (update_instance i d)) (Address (Endpoint i)) @ [i])"
  by (simp add: update_instance_def Let_def lookup_def)

text \<open>The by-hostname map is built as intended: each key collects, in order, the
  instances of that hostname.\<close>

lemma lookup_fold_instances:
  "lookup (instances (fold update_instance xs d)) h =
     lookup (instances d) h @ filter (\<lambda>i. Hostname (Service i) = h) xs"
  by (induction xs arbitrary: d) (simp_all add: update_instance_instances lookup_def)

lemma ip2instance_fold_None:
  "ip2instance (fold update_instance xs d) a = None \<longleftrightarrow>
     ip2instance d a = None \<and> (\<forall>i\<in>set xs. Address (Endpoint i) \<noteq> a)"
  by (induction xs arbitrary: d) (auto simp add: update_instance_ip2instance)

lemma lookup_ip2instance_fold_Nil:
  "lookup (ip2instance (fold update_instance xs d)) a = [] \<longleftrightarrow>
     lookup (ip2instance d) a = [] \<and> (\<forall>i\<in>set xs. Address (Endpoint i) \<noteq> a)"
  by (induction xs arbitrary: d) (auto simp add: update_instance_ip2instance lookup_def)

text \<open>The by-address map is not: an address that is no hostname key keeps only the last
  instance that has it, because the list that is extended is read from the by-hostname
  map.\<close>

lemma ip2instance_fold_last:
  assumes "\<forall>i\<in>set xs. Hostname (Service i) \<noteq> a" and "instances d a = None"
  shows "ip2instance (fold update_instance xs d) a =
           (if filter (\<lambda>i. Address (Endpoint i) = a) xs = [] then ip2instance d a
            else Some [last (filter (\<lambda>i. Address (Endpoint i) = a) xs)])"
  using assms
proof (induction xs rule: rev_induct)
  case Nil
  then show ?case by simp
next
  case (snoc x xs)
  have "lookup (instances (update_instance x (fold update_instance xs d))) a = []"
    using snoc.prems lookup_fold_instances [of xs d a]
    by (auto simp add: update_instance_instances lookup_def filter_empty_conv)
  then show ?case
    using snoc by (auto simp add: update_instance_ip2instance)
qed

lemma fold_update_instance_relock:
  "(fold update_instance xs (d\<lparr>storeMutex := m, instances := byHost, ip2instance := byIp\<rparr>))
      \<lparr>storeMutex := m'\<rparr>
   = fold update_instance xs (d\<lparr>storeMutex := m', instances := byHost, ip2instance := byIp\<rparr>)"
  by (induction xs arbitrary: byHost byIp) (simp_all add: update_instance_def Let_def)

lemma reindexed_frame:
  "storeMutex (reindexed ci d) = storeMutex d"
  "updateNeeded (reindexed ci d) = updateNeeded d"
  "store (reindexed ci d) = store d"
  by (simp_all add: reindexed_def fold_update_instance_frame)

lemma lookup_instances_reindexed:
  "lookup (instances (reindexed ci d)) h =
     filter (\<lambda>i. Hostname (Service i) = h) (allInstances ci d)"
  by (simp add: reindexed_def lookup_fold_instances) (simp add: lookup_def)

lemma ip2instance_reindexed_None:
  "ip2instance (reindexed ci d) a = None \<longleftrightarrow>
     (\<forall>i\<in>set (allInstances ci d). Address (Endpoint i) \<noteq> a)"
  by (simp add: reindexed_def ip2instance_fold_None)

lemma lookup_ip2instance_reindexed_Nil:
  "lookup (ip2instance (reindexed ci d)) a = [] \<longleftrightarrow>
     (\<forall>i\<in>set (allInstances ci d). Address (Endpoint i) \<noteq> a)"
  by (simp add: reindexed_def lookup_ip2instance_fold_Nil) (simp add: lookup_def)

lemma ip2instance_reindexed_last:
  assumes "\<forall>i\<in>set (allInstances ci d). Hostname (Service i) \<noteq> a"
  shows "ip2instance (reindexed ci d) a =
           (if filter (\<lambda>i. Address (Endpoint i) = a) (allInstances ci d) = [] then None
            else Some [last (filter (\<lambda>i. Address (Endpoint i) = a) (allInstances ci d))])"
  using assms by (simp add: reindexed_def ip2instance_fold_last)

subsection \<open>update and the queries behind it\<close>

lemma update_stale:
  assumes "unlocked (storeMutex d)" and "updateNeeded d"
  shows "update convertInstances d = Some (reindexed convertInstances d)"
  using assms
  by (simp add: update_def mutex_roundtrip Let_def fold_configs_flat fold_update_instance_frame
      fold_update_instance_relock reindexed_def allInstances_def)

lemma update_fresh:
  assumes "unlocked (storeMutex d)" and "\<not> updateNeeded d"
  shows "update convertInstances d =
           Some (d\<lparr>storeMutex := (storeMutex d)\<lparr>readers := Suc 0\<rparr>\<rparr>)"
  using assms by (simp add: update_def mutex_roundtrip Let_def)

lemma update_flag_unchanged:
  "update ci d = Some d' \<Longrightarrow> updateNeeded d' = updateNeeded d"
  by (auto simp add: update_def Let_def fold_configs_flat fold_update_instance_frame
      split: if_splits Option.bind_splits)

lemma InstancesByPort_stale:
  assumes "unlocked (storeMutex d)" and "updateNeeded d"
  shows "InstancesByPort ci d h port labels =
           Some (reindexed ci d,
                 filter (\<lambda>i. Hostname (Service i) = h \<and> HasSubsetOf labels (Labels i) \<and>
                             portMatchSingle i port)
                   (lookup (instances (reindexed ci d)) h),
                 None)"
  using assms
  by (simp add: InstancesByPort_def update_stale reindexed_frame mutex_roundtrip Let_def
      lookup_def fold_snoc_filter set_own_storeMutex split: option.split)

lemma GetProxyServiceInstances_stale:
  assumes "unlocked (storeMutex d)" and "updateNeeded d"
  shows "GetProxyServiceInstances ci d a =
           Some (reindexed ci d, lookup (ip2instance (reindexed ci d)) a, None)"
  using assms
  by (simp add: GetProxyServiceInstances_def update_stale reindexed_frame mutex_roundtrip Let_def
      set_own_storeMutex lookup_def split: option.split)

lemma GetProxyServiceInstances_fresh:
  assumes "unlocked (storeMutex d)" and "\<not> updateNeeded d"
  shows "GetProxyServiceInstances ci d a =
           Some (d\<lparr>storeMutex := (storeMutex d)\<lparr>readers := Suc 0\<rparr>\<rparr>,
                 lookup (ip2instance d) a, None)"
  using assms
  by (simp add: GetProxyServiceInstances_def update_fresh unlocked_def RLock_def RUnlock_def
      Let_def lookup_def split: option.split)

subsection \<open>What one goroutine can reach\<close>

lemma NewServiceDiscovery_idle:
  "unlocked (storeMutex (NewServiceDiscovery cb st))"
  "updateNeeded (NewServiceDiscovery cb st)"
  "store (NewServiceDiscovery cb st) = st"
  by (simp_all add: NewServiceDiscovery_def unlocked_def)

lemma eventHandler_idle:
  assumes "unlocked (storeMutex d)"
    and "eventHandler cs ci now d config event = Some (d', started)"
  shows "unlocked (storeMutex d') \<and> updateNeeded d'"
  using assms
  by (auto simp add: eventHandler_def mutex_roundtrip Let_def set_own_storeMutex)

text \<open>Nothing in the file resets \<open>updateNeeded\<close>: every store one goroutine reaches has
  the flag set and the mutex free, which are the hypotheses of the theorems on the
  index-backed queries below.\<close>

lemma reachable_idle:
  "reachable cs ci d \<Longrightarrow> unlocked (storeMutex d) \<and> updateNeeded d"
proof (induction rule: reachable.induct)
  case (constructed cb st)
  then show ?case by (simp add: NewServiceDiscovery_idle)
next
  case (notified d now config event d' started)
  then show ?case by (blast dest: eventHandler_idle)
next
  case (by_port d h port labels d' r)
  then show ?case by (auto simp add: InstancesByPort_stale reindexed_frame)
next
  case (by_address d a d' r)
  then show ?case by (auto simp add: GetProxyServiceInstances_stale reindexed_frame)
qed (simp_all add: AppendServiceHandler_def AppendInstanceHandler_def)

subsection \<open>The scans of the source enumeration\<close>

lemma getServices_eq: "getServices cs d = allServices cs d"
  by (simp add: getServices_def allServices_def fold_append_concat)

lemma GetService_loop_unknown:
  "\<forall>s\<in>set svcs. Hostname s \<noteq> h \<Longrightarrow> GetService_loop svcs h = (None, None)"
  by (induction svcs) simp_all

lemma GetServiceAttributes_svcs_unknown:
  "\<forall>s\<in>set svcs. Hostname s \<noteq> h \<Longrightarrow> GetServiceAttributes_svcs ns svcs h = None"
  by (induction svcs) simp_all

lemma GetServiceAttributes_loop_unknown:
  "\<forall>s\<in>set (concat (map (\<lambda>config. cs (Spec config)) configs)). Hostname s \<noteq> h \<Longrightarrow>
   GetServiceAttributes_loop cs configs h = (None, Some (Errorf ''service not found''))"
  by (induction configs) (simp_all add: GetServiceAttributes_svcs_unknown)

lemma HasSubsetOf_iff:
  "HasSubsetOf labels that \<longleftrightarrow> (\<forall>(k, v)\<in>set labels. map_of that k = Some v)"
  by (simp add: HasSubsetOf_def list_all_iff case_prod_beta)

lemma portMap_lookup:
  "map_of (fold (\<lambda>port portMap. AList.update port True portMap) ports pm) name =
     (if name \<in> set ports then Some True else map_of pm name)"
  by (induction ports arbitrary: pm) (simp_all add: update_conv')

lemma update_not_Nil: "AList.update k v al \<noteq> []"
  by (cases al) simp_all

lemma portMap_empty:
  "fold (\<lambda>port portMap. AList.update port True portMap) ports pm = [] \<longleftrightarrow>
     ports = [] \<and> pm = []"
  by (induction ports arbitrary: pm) (simp_all add: update_not_Nil)

lemma Instances_filter:
  "Instances ci d h ports labels =
     (d,
      filter (\<lambda>i. Hostname (Service i) = h \<and>
                  (ports = [] \<or> Name (ServicePort (Endpoint i)) \<in> set ports) \<and>
                  (\<forall>(k, v)\<in>set labels. map_of (Labels i) k = Some v))
        (allInstances ci d),
      None)"
proof -
  let ?portMap = "fold (\<lambda>port portMap. AList.update port True portMap) ports []"
  have "(Hostname (Service i) = h \<and> HasSubsetOf labels (Labels i) \<and>
         portMatchEnvoyV1 i ?portMap) =
        (Hostname (Service i) = h \<and>
         (ports = [] \<or> Name (ServicePort (Endpoint i)) \<in> set ports) \<and>
         (\<forall>(k, v)\<in>set labels. map_of (Labels i) k = Some v))" for i
    by (auto simp add: portMatchEnvoyV1_def portMap_lookup portMap_empty HasSubsetOf_iff)
  then show ?thesis
    by (simp add: Instances_def Let_def fold_scan allInstances_def)
qed

section \<open>The claims\<close>

text \<open>
  C1. After a rebuild the by-address map should hold, for every address, exactly the
  instances with that endpoint address, so that an address query equals a re-derivation
  from the source enumeration. The rebuild does not do this (see
  \<open>ip2instance_reindexed_last\<close>): in the small registry two instances have the address
  \<open>10.0.0.1\<close>, and the query for that address returns only the second.
\<close>

theorem GetProxyServiceInstances_keeps_last:
  "GetProxyServiceInstances snd ex_store ''10.0.0.1'' =
     Some (reindexed snd ex_store, [ex_grpc], None)
   \<and> filter (\<lambda>i. Address (Endpoint i) = ''10.0.0.1'') (allInstances snd ex_store) =
       [ex_http, ex_grpc]"
proof -
  have idle: "unlocked (storeMutex ex_store)" "updateNeeded ex_store"
    by (simp_all add: ex_store_def NewServiceDiscovery_def unlocked_def)
  have "lookup (ip2instance (reindexed snd ex_store)) ''10.0.0.1'' = [ex_grpc]"
    by (simp add: reindexed_def allInstances_def ex_store_def ex_entry_def NewServiceDiscovery_def
        update_instance_def Let_def lookup_def ex_http_def ex_grpc_def)
  then show ?thesis
    by (simp add: GetProxyServiceInstances_stale [OF idle])
      (simp add: allInstances_def ex_store_def ex_entry_def NewServiceDiscovery_def
        ex_http_def ex_grpc_def)
qed

text \<open>
  C2. A rebuild should clear the staleness flag, so that a second index-backed query
  with no notification in between does not rebuild. In the code the flag stays set: after
  the first query on a new store it is still true, and \<^const>\<open>update\<close> rebuilds again,
  here observed on a source enumeration \<open>st'\<close> that changed with no notification.
\<close>

theorem update_keeps_flag:
  "(let c = NewServiceDiscovery cb st :: ('sh, 'ih, 'e) ServiceEntryStore
    in map_option fst (InstancesByPort ci c h port labels) = Some (reindexed ci c)
       \<and> updateNeeded (reindexed ci c)
       \<and> update ci ((reindexed ci c)\<lparr>store := st'\<rparr>) =
           Some (reindexed ci ((reindexed ci c)\<lparr>store := st'\<rparr>)))"
  by (simp add: InstancesByPort_stale update_stale NewServiceDiscovery_idle reindexed_frame Let_def)

text \<open>
  C3. \<^const>\<open>update\<close> should hold the shared lock only to read the flag and return with
  no lock held. On a store that is not stale and whose mutex is free it returns with one
  read lock still held, and a change notification that follows cannot take the exclusive
  lock.
\<close>

theorem update_fresh_leaks_read_lock:
  "update ci (d\<lparr>storeMutex := \<lparr>readers = 0, writer = False\<rparr>, updateNeeded := False\<rparr>) =
     Some (d\<lparr>storeMutex := \<lparr>readers = Suc 0, writer = False\<rparr>, updateNeeded := False\<rparr>)
   \<and> eventHandler cs ci now
       (d\<lparr>storeMutex := \<lparr>readers = Suc 0, writer = False\<rparr>, updateNeeded := False\<rparr>)
       config event
     = None"
  by (simp add: update_def RLock_def Let_def eventHandler_def Lock_def)

text \<open>
  C4. A change notification for a record and an event kind, run on a store whose mutex is
  free, sets the staleness flag and starts one goroutine for each pair of a registered
  service handler and a service converted from the record, then one for each pair of a
  registered instance handler and an instance converted from the record, each with the
  event kind; nothing else of the store changes but the time of the last change.
\<close>

theorem eventHandler_dispatch:
  assumes "unlocked (storeMutex d)"
  shows "eventHandler cs ci now d config event =
           Some (d\<lparr>lastChange := now, updateNeeded := True\<rparr>,
                 map (\<lambda>(handler, service). ServiceCall handler service event)
                   (List.product (serviceHandlers d) (cs (Spec config))) @
                 map (\<lambda>(handler, instance). InstanceCall handler instance event)
                   (List.product (instanceHandlers d) (ci (Spec config))))"
  using assms
  by (simp add: eventHandler_def mutex_roundtrip Let_def fold_fold_product set_own_storeMutex)

theorem eventHandler_dispatch_witness:
  "unlocked (storeMutex ex_store) \<and>
   map_option snd (eventHandler fst snd 5 ex_store ex_entry Updated) =
     Some [ServiceCall 1 \<lparr>Hostname = ''a.example''\<rparr> Updated,
           ServiceCall 2 \<lparr>Hostname = ''a.example''\<rparr> Updated,
           InstanceCall 7 ex_http Updated, InstanceCall 7 ex_grpc Updated] \<and>
   map_option (\<lambda>r. updateNeeded (fst r)) (eventHandler fst snd 5 ex_store ex_entry Updated) =
     Some True"
  using eventHandler_dispatch [of ex_store fst snd 5 ex_entry Updated]
  by (simp add: ex_store_def ex_entry_def NewServiceDiscovery_def unlocked_def)

text \<open>
  C5. On a stale store with a free mutex, \<^const>\<open>InstancesByPort\<close> for a hostname \<open>h\<close>,
  port 0 and the empty label set returns, with no error, exactly the list indexed under
  \<open>h\<close>, which is the list of all converted instances of hostname \<open>h\<close>; for a port other
  than 0 it returns those of them whose service port number is the requested one and whose
  labels match.
\<close>

theorem InstancesByPort_by_hostname:
  assumes "unlocked (storeMutex d)" and "updateNeeded d"
  shows "\<exists>d'. InstancesByPort ci d h 0 [] = Some (d', lookup (instances d') h, None)
           \<and> lookup (instances d') h =
               filter (\<lambda>i. Hostname (Service i) = h) (allInstances ci d)
           \<and> (port \<noteq> 0 \<longrightarrow>
                InstancesByPort ci d h port labels =
                  Some (d', filter (\<lambda>i. Port (ServicePort (Endpoint i)) = port \<and>
                                      HasSubsetOf labels (Labels i))
                              (lookup (instances d') h), None))"
proof (intro exI conjI impI)
  let ?d' = "reindexed ci d"
  have own: "filter (\<lambda>i. Hostname (Service i) = h \<and> Q i) (lookup (instances ?d') h)
             = filter Q (lookup (instances ?d') h)" for Q
    by (auto simp add: lookup_instances_reindexed intro: filter_cong)
  show "InstancesByPort ci d h 0 [] = Some (?d', lookup (instances ?d') h, None)"
    using own [of "\<lambda>_. True"]
    by (simp add: InstancesByPort_stale [OF assms] HasSubsetOf_def portMatchSingle_def)
  show "lookup (instances ?d') h = filter (\<lambda>i. Hostname (Service i) = h) (allInstances ci d)"
    by (rule lookup_instances_reindexed)
  assume "port \<noteq> 0"
  then have "(HasSubsetOf labels (Labels i) \<and> portMatchSingle i port) =
             (Port (ServicePort (Endpoint i)) = port \<and> HasSubsetOf labels (Labels i))" for i
    by (auto simp add: portMatchSingle_def)
  then show "InstancesByPort ci d h port labels =
      Some (?d', filter (\<lambda>i. Port (ServicePort (Endpoint i)) = port \<and>
                              HasSubsetOf labels (Labels i))
                   (lookup (instances ?d') h), None)"
    using own [of "\<lambda>i. HasSubsetOf labels (Labels i) \<and> portMatchSingle i port"]
    by (simp add: InstancesByPort_stale [OF assms])
qed

theorem InstancesByPort_by_hostname_witness:
  "unlocked (storeMutex ex_store) \<and> updateNeeded ex_store \<and>
   map_option (\<lambda>r. fst (snd r)) (InstancesByPort snd ex_store ''a.example'' 0 []) =
     Some [ex_http, ex_grpc] \<and>
   map_option (\<lambda>r. fst (snd r)) (InstancesByPort snd ex_store ''a.example'' 8080 []) =
     Some [ex_grpc]"
  using InstancesByPort_by_hostname [where d = ex_store and ci = snd and h = "''a.example''"
      and port = 8080 and labels = "[]"]
  by (auto simp add: ex_store_def ex_entry_def NewServiceDiscovery_def unlocked_def
      allInstances_def ex_http_def ex_grpc_def HasSubsetOf_def)

text \<open>
  C6. For a hostname that no service converted from the current source enumeration has,
  \<^const>\<open>GetService\<close> returns no service and no error, while \<^const>\<open>GetServiceAttributes\<close>
  returns no attributes and the error \<open>service not found\<close>.
\<close>

theorem unknown_hostname_asymmetry:
  assumes "\<forall>s\<in>set (allServices cs d). Hostname s \<noteq> h"
  shows "GetService cs d h = (d, None, None) \<and>
         GetServiceAttributes cs d h = (d, None, Some (Errorf ''service not found''))"
  using assms
  by (simp add: GetService_def GetServiceAttributes_def getServices_eq GetService_loop_unknown
      GetServiceAttributes_loop_unknown allServices_def)

theorem unknown_hostname_asymmetry_witness:
  "list_all (\<lambda>s. Hostname s \<noteq> ''b.example'') (allServices fst ex_store) \<and>
   snd (GetService fst ex_store ''b.example'') = (None, None) \<and>
   snd (GetServiceAttributes fst ex_store ''b.example'') =
     (None, Some (Errorf ''service not found''))"
  using unknown_hostname_asymmetry [of fst ex_store "''b.example''"]
  by (simp add: allServices_def ex_store_def ex_entry_def NewServiceDiscovery_def)

text \<open>
  C7. On a store with a free mutex, \<^const>\<open>GetProxyServiceInstances\<close> returns with no
  error for every address; when the by-address map it reads has no entry for the address
  the result is the empty list, and so it is on a stale store when no converted instance
  of the source enumeration has the address.
\<close>

theorem GetProxyServiceInstances_absent:
  assumes "unlocked (storeMutex d)"
  shows "\<exists>d' out. GetProxyServiceInstances ci d a = Some (d', out, None)
           \<and> (ip2instance d' a = None \<longrightarrow> out = [])
           \<and> (updateNeeded d \<and> (\<forall>i\<in>set (allInstances ci d). Address (Endpoint i) \<noteq> a)
                \<longrightarrow> out = [])"
proof (cases "updateNeeded d")
  case True
  show ?thesis
    using True
    by (simp add: GetProxyServiceInstances_stale [OF assms True] lookup_def
        ip2instance_reindexed_None [symmetric])
next
  case False
  show ?thesis
    using False
    by (simp add: GetProxyServiceInstances_fresh [OF assms False] lookup_def)
qed

theorem GetProxyServiceInstances_absent_witness:
  "unlocked (storeMutex ex_store) \<and>
   map_option snd (GetProxyServiceInstances snd ex_store ''10.0.0.2'') = Some ([], None)"
  using GetProxyServiceInstances_absent [where d = ex_store and ci = snd and a = "''10.0.0.2''"]
  by (auto simp add: ex_store_def ex_entry_def NewServiceDiscovery_def unlocked_def
      allInstances_def ex_http_def ex_grpc_def)

text \<open>
  C8. \<^const>\<open>Instances\<close> returns, with no error, the converted instances of the current
  source enumeration, in order, that satisfy all of: the hostname of the instance's
  service is the requested one; the list of port names is empty or contains the name of
  the instance's service port; every key of the requested label set is in the instance's
  labels with the same value (so the empty label set matches every instance). The result
  does not depend on the two index maps or on the staleness flag.
\<close>

theorem Instances_scan:
  "Instances ci d h ports labels =
     (d,
      filter (\<lambda>i. Hostname (Service i) = h \<and>
                  (ports = [] \<or> Name (ServicePort (Endpoint i)) \<in> set ports) \<and>
                  (\<forall>(k, v)\<in>set labels. map_of (Labels i) k = Some v))
        (allInstances ci d),
      None)
   \<and> snd (Instances ci (d\<lparr>instances := byHost, ip2instance := byIp, updateNeeded := flag\<rparr>)
            h ports labels)
     = snd (Instances ci d h ports labels)"
  by (simp add: Instances_filter allInstances_def)

theorem Instances_scan_witness:
  "map (\<lambda>ports. fst (snd (Instances snd ex_store ''a.example'' ports [(''env'', ''prod'')])))
     [[], [''http''], [''grpc'']] = [[ex_http], [ex_http], []]
   \<and> fst (snd (Instances snd ex_store ''a.example'' [''grpc'', ''smtp''] [])) = [ex_grpc]
   \<and> fst (snd (Instances snd ex_store ''b.example'' [] [])) = []"
  using Instances_scan [of snd ex_store "''a.example''" "[]" "[(''env'', ''prod'')]"]
    Instances_scan [of snd ex_store "''a.example''" "[''http'']" "[(''env'', ''prod'')]"]
    Instances_scan [of snd ex_store "''a.example''" "[''grpc'']" "[(''env'', ''prod'')]"]
    Instances_scan [of snd ex_store "''a.example''" "[''grpc'', ''smtp'']" "[]"]
    Instances_scan [of snd ex_store "''b.example''" "[]" "[]"]
  by (simp add: allInstances_def ex_store_def ex_entry_def ex_http_def ex_grpc_def
      NewServiceDiscovery_def)

text \<open>
  C9. \<^const>\<open>Services\<close> returns, with no error, the concatenation in enumeration order of
  the conversion of every record the source store currently enumerates; it reads neither
  of the two index maps nor the staleness flag, and the store it leaves is the one it
  found.
\<close>

theorem Services_enumerates:
  "Services convertServices d =
     (d, concat (map (\<lambda>config. convertServices (Spec config)) (store d)), None)
   \<and> snd (Services convertServices
            (d\<lparr>instances := byHost, ip2instance := byIp, updateNeeded := flag\<rparr>))
     = snd (Services convertServices d)"
  by (simp add: Services_def fold_append_concat)

text \<open>
  C10. A store made by \<^const>\<open>NewServiceDiscovery\<close> has the staleness flag set and both index
  maps empty. The first index-backed query on it rebuilds the index from the source
  enumeration before it answers: \<^const>\<open>InstancesByPort\<close> returns the matching converted
  instances of the enumeration, and \<^const>\<open>GetProxyServiceInstances\<close> returns the empty list
  only for an address that no converted instance has.
\<close>

theorem NewServiceDiscovery_first_query:
  "(let c = NewServiceDiscovery cb st :: ('sh, 'ih, 'e) ServiceEntryStore;
        source = concat (map (\<lambda>config. ci (Spec config)) st)
    in updateNeeded c \<and> instances c = Map.empty \<and> ip2instance c = Map.empty
       \<and> update ci c = Some (reindexed ci c)
       \<and> InstancesByPort ci c h port labels =
           Some (reindexed ci c,
                 filter (\<lambda>i. Hostname (Service i) = h \<and> HasSubsetOf labels (Labels i) \<and>
                             portMatchSingle i port) source,
                 None)
       \<and> (\<exists>out. GetProxyServiceInstances ci c a = Some (reindexed ci c, out, None)
             \<and> (out = []) = (\<forall>i\<in>set source. Address (Endpoint i) \<noteq> a)))"
proof -
  let ?c = "NewServiceDiscovery cb st :: ('sh, 'ih, 'e) ServiceEntryStore"
  have all: "allInstances ci ?c = concat (map (\<lambda>config. ci (Spec config)) st)"
    by (simp add: allInstances_def NewServiceDiscovery_idle)
  have "filter (\<lambda>i. Hostname (Service i) = h \<and> Q i) (lookup (instances (reindexed ci ?c)) h)
             = filter (\<lambda>i. Hostname (Service i) = h \<and> Q i) (allInstances ci ?c)" for Q
    by (auto simp add: lookup_instances_reindexed intro: filter_cong)
  then show ?thesis
    by (simp add: update_stale InstancesByPort_stale GetProxyServiceInstances_stale
        NewServiceDiscovery_idle lookup_ip2instance_reindexed_Nil all Let_def)
      (simp add: NewServiceDiscovery_def)
qed

theorem NewServiceDiscovery_first_query_witness:
  "(let c = NewServiceDiscovery None [ex_entry]
              :: (nat, nat, Service list \<times> ServiceInstance list) ServiceEntryStore
    in map_option (\<lambda>r. fst (snd r)) (InstancesByPort snd c ''a.example'' 80 []) = Some [ex_http]
       \<and> map_option (\<lambda>r. fst (snd r)) (GetProxyServiceInstances snd c ''10.0.0.1'') \<noteq> Some []
       \<and> map_option (\<lambda>r. fst (snd r)) (GetProxyServiceInstances snd c ''10.0.0.2'') = Some [])"
  using NewServiceDiscovery_first_query [where cb = None and st = "[ex_entry]" and ci = snd
      and h = "''a.example''" and labels = "[]" and port = 80 and a = "''10.0.0.1''"
      and 'sh = nat and 'ih = nat]
    NewServiceDiscovery_first_query [where cb = None and st = "[ex_entry]" and ci = snd
      and h = "''a.example''" and labels = "[]" and port = 80 and a = "''10.0.0.2''"
      and 'sh = nat and 'ih = nat]
  by (auto simp add: ex_entry_def ex_http_def ex_grpc_def HasSubsetOf_def portMatchSingle_def
      Let_def)

end
